theory Spec2Isabelle
  imports Complex_Main "HOL-Library.Signed_Division"
begin

section \<open>Run-time values and the object store\<close>

text \<open>
  The module app.ts is compiled to JavaScript and run once. Its values are the
  primitives and references into a store of objects. A string is a list of
  code units; a number is modelled where it is a whole number (every number
  literal of the module is one), and intermediate quotients are exact rationals.
  An object keeps its own properties in insertion order; accessor properties
  and inherited members are absent from the module's objects and from the model.
\<close>

datatype error = TypeError | ReferenceError | NotModelled

datatype val = Undefined | Num int | Str string | Ref nat | Fn string

datatype obj =
    Object (cls: string) (props: "(string \<times> val) list") (frozen: bool)
  | Array (elems: "val list") (frozen: bool)

type_synonym heap = "obj list"

definition andThen :: "error + 'a \<Rightarrow> ('a \<Rightarrow> error + 'b) \<Rightarrow> error + 'b" where
  "andThen m f = (case m of Inl e \<Rightarrow> Inl e | Inr x \<Rightarrow> f x)"

definition alloc :: "heap \<Rightarrow> obj \<Rightarrow> heap \<times> val" where
  "alloc h ob = (h @ [ob], Ref (length h))"

subsection \<open>Numbers to strings\<close>

fun show_nat :: "nat \<Rightarrow> string" where
  "show_nat n =
     (if n < 10 then [''0123456789'' ! n]
      else show_nat (n div 10) @ [''0123456789'' ! (n mod 10)])"

declare show_nat.simps [simp del]

definition show_int :: "int \<Rightarrow> string" where
  "show_int i = (if i < 0 then ''-'' @ show_nat (nat (- i)) else show_nat (nat i))"

definition safe_integer :: "int \<Rightarrow> bool" where
  "safe_integer d = (\<bar>d\<bar> < 2 ^ 53)"

text \<open>
  ToString of a number: the decimal digits of a whole number below 2^53 in
  magnitude. The digits of any other number are decided by binary rounding,
  which the model leaves out.
\<close>

definition number_to_string :: "rat \<Rightarrow> string option" where
  "number_to_string r =
     (if of_int \<lfloor>r\<rfloor> = r \<and> safe_integer \<lfloor>r\<rfloor> then Some (show_int \<lfloor>r\<rfloor>) else None)"

text \<open>The remainder operator: the quotient is truncated towards zero.\<close>

definition js_rem :: "rat \<Rightarrow> rat \<Rightarrow> rat" where
  "js_rem a b = a - b * of_int (if 0 \<le> a / b then \<lfloor>a / b\<rfloor> else \<lceil>a / b\<rceil>)"

subsection \<open>Reading a property\<close>

definition lookup :: "(string \<times> val) list \<Rightarrow> string \<Rightarrow> val" where
  "lookup ps k = (case map_of ps k of None \<Rightarrow> Undefined | Some v \<Rightarrow> v)"

definition array_get :: "val list \<Rightarrow> string \<Rightarrow> val" where
  "array_get xs k =
     (if k = ''length'' then Num (int (length xs))
      else case find (\<lambda>i. show_nat i = k) [0 ..< length xs] of
             None \<Rightarrow> Undefined
           | Some i \<Rightarrow> xs ! i)"

text \<open>
  \<open>v[k]\<close>: reading a property of undefined throws; a missing property reads as
  undefined. Properties of primitive strings, numbers and functions are not
  read anywhere in the module.
\<close>

fun get_prop :: "heap \<Rightarrow> val \<Rightarrow> string \<Rightarrow> error + val" where
  "get_prop h Undefined k = Inl TypeError"
| "get_prop h (Ref a) k =
     (if a < length h
      then (case h ! a of
              Object c ps f \<Rightarrow> Inr (lookup ps k)
            | Array xs f \<Rightarrow> Inr (array_get xs k))
      else Inl NotModelled)"
| "get_prop h v k = Inl NotModelled"

section \<open>Writing a property\<close>

fun set_prop :: "(string \<times> val) list \<Rightarrow> string \<Rightarrow> val \<Rightarrow> (string \<times> val) list" where
  "set_prop [] k v = [(k, v)]"
| "set_prop ((k', v') # ps) k v =
     (if k' = k then (k', v) # ps else (k', v') # set_prop ps k v)"

text \<open>
  \<open>target[k] = v\<close> in a module, which is strict code: writing to a frozen object
  throws, and so does writing to undefined or to a primitive. An array is
  written at an index it already has.
\<close>

fun assign :: "heap \<Rightarrow> val \<Rightarrow> string \<Rightarrow> val \<Rightarrow> error + heap" where
  "assign h Undefined k v = Inl TypeError"
| "assign h (Num n) k v = Inl TypeError"
| "assign h (Str s) k v = Inl TypeError"
| "assign h (Fn f) k v = Inl NotModelled"
| "assign h (Ref a) k v =
     (if a < length h
      then (case h ! a of
              Object c ps f \<Rightarrow>
                if f then Inl TypeError else Inr (h[a := Object c (set_prop ps k v) f])
            | Array xs f \<Rightarrow>
                if f then Inl TypeError
                else (case find (\<lambda>i. show_nat i = k) [0 ..< length xs] of
                        None \<Rightarrow> Inl NotModelled
                      | Some i \<Rightarrow> Inr (h[a := Array (xs[i := v]) f])))
      else Inl NotModelled)"

text \<open>The store after \<open>try { target[k] = v } catch (e) { }\<close>.\<close>

definition attempt_assign :: "heap \<Rightarrow> val \<Rightarrow> string \<Rightarrow> val \<Rightarrow> heap" where
  "attempt_assign h target k v = (case assign h target k v of Inl e \<Rightarrow> h | Inr h' \<Rightarrow> h')"

text \<open>The own enumerable properties that an object spread copies, in order.\<close>

definition own_props :: "heap \<Rightarrow> val \<Rightarrow> (string \<times> val) list" where
  "own_props h v =
     (case v of
        Ref a \<Rightarrow>
          if a < length h
          then (case h ! a of
                  Object c ps f \<Rightarrow> ps
                | Array xs f \<Rightarrow> zip (map show_nat [0 ..< length xs]) xs)
          else []
      | Str s \<Rightarrow> zip (map show_nat [0 ..< length s]) (map (\<lambda>c. Str [c]) s)
      | _ \<Rightarrow> [])"

definition copy_props :: "(string \<times> val) list \<Rightarrow> (string \<times> val) list \<Rightarrow> (string \<times> val) list" where
  "copy_props target source = foldl (\<lambda>t (k, v). set_prop t k v) target source"

text \<open>ToString inside a template literal.\<close>

fun to_string :: "val \<Rightarrow> string option" where
  "to_string Undefined = Some ''undefined''"
| "to_string (Num n) = number_to_string (of_int n)"
| "to_string (Str s) = Some s"
| "to_string (Ref a) = None"
| "to_string (Fn f) = None"

section \<open>Type queries and mapped types\<close>

definition getProperty :: "heap \<Rightarrow> val \<Rightarrow> string \<Rightarrow> error + val" where
  "getProperty h ob key = get_prop h ob key"

text \<open>Object.freeze marks an object and returns it; a primitive is returned as it is.\<close>

definition object_freeze :: "heap \<Rightarrow> val \<Rightarrow> heap \<times> val" where
  "object_freeze h v =
     (case v of
        Ref a \<Rightarrow>
          if a < length h
          then (h[a := (case h ! a of
                          Object c ps f \<Rightarrow> Object c ps True
                        | Array xs f \<Rightarrow> Array xs True)], v)
          else (h, v)
      | _ \<Rightarrow> (h, v))"

definition freeze :: "heap \<Rightarrow> val \<Rightarrow> heap \<times> val" where
  "freeze h ob = object_freeze h ob"

definition updatePerson :: "heap \<Rightarrow> val \<Rightarrow> val \<Rightarrow> heap \<times> val" where
  "updatePerson h person prop =
     alloc h (Object ''Object''
                (copy_props (copy_props [] (own_props h person)) (own_props h prop)) False)"

definition printAge :: "heap \<Rightarrow> val \<Rightarrow> error + val" where
  "printAge h person =
     andThen (get_prop h person ''name'') (\<lambda>name.
     andThen (get_prop h person ''age'') (\<lambda>age.
       case (to_string name, to_string age) of
         (Some n, Some a) \<Rightarrow> Inr (Str (n @ '' is '' @ a))
       | _ \<Rightarrow> Inl NotModelled))"

section \<open>typeof and type guards\<close>

text \<open>class Song: the constructor stores its two parameters as title and duration.\<close>

definition new_Song :: "heap \<Rightarrow> val \<Rightarrow> val \<Rightarrow> heap \<times> val" where
  "new_Song h title duration =
     alloc h (Object ''Song'' [(''title'', title), (''duration'', duration)] False)"

definition getSongDuration :: "heap \<Rightarrow> val \<Rightarrow> error + val" where
  "getSongDuration h item =
     andThen (get_prop h item ''duration'') (\<lambda>duration.
       case duration of
         Str s \<Rightarrow> Inr (Str s)
       | Num d \<Rightarrow>
           if \<not> safe_integer d then Inl NotModelled
           else
             let minutes = \<lfloor>of_int d / 60000 :: rat\<rfloor>;
                 seconds = js_rem (of_int d / 1000) 60
             in (case (number_to_string (of_int minutes), number_to_string seconds) of
                   (Some m, Some s) \<Rightarrow> Inr (Str (m @ '':'' @ s))
                 | _ \<Rightarrow> Inl NotModelled)
       | _ \<Rightarrow> Inl NotModelled)"

section \<open>instanceof and user-defined type guards\<close>

text \<open>
  Album and Playlist declare a field kind and never assign it: the constructors
  store only their parameters.
\<close>

definition new_Album :: "heap \<Rightarrow> val \<Rightarrow> val \<Rightarrow> heap \<times> val" where
  "new_Album h title duration =
     alloc h (Object ''Album'' [(''title'', title), (''duration'', duration)] False)"

definition new_Playlist :: "heap \<Rightarrow> val \<Rightarrow> val \<Rightarrow> heap \<times> val" where
  "new_Playlist h name songs =
     alloc h (Object ''Playlist'' [(''name'', name), (''songs'', songs)] False)"

text \<open>No class of the module extends another, so instanceof compares the constructor.\<close>

definition instanceof :: "heap \<Rightarrow> val \<Rightarrow> string \<Rightarrow> bool" where
  "instanceof h v cname =
     (case v of
        Ref a \<Rightarrow>
          a < length h \<and>
          (case h ! a of Object c ps f \<Rightarrow> c = cname | Array xs f \<Rightarrow> cname = ''Array'')
      | _ \<Rightarrow> False)"

definition getItemName :: "heap \<Rightarrow> val \<Rightarrow> error + val" where
  "getItemName h item =
     (if instanceof h item ''Album'' then get_prop h item ''title''
      else get_prop h item ''name'')"

definition isAlbum :: "heap \<Rightarrow> val \<Rightarrow> bool" where
  "isAlbum h item = instanceof h item ''Album''"

definition getName :: "heap \<Rightarrow> val \<Rightarrow> error + val" where
  "getName h item =
     (if isAlbum h item then get_prop h item ''title''
      else get_prop h item ''name'')"

definition getKindName :: "heap \<Rightarrow> val \<Rightarrow> error + val" where
  "getKindName h item =
     andThen (get_prop h item ''kind'') (\<lambda>kind.
       if kind = Str ''album'' then get_prop h item ''title''
       else get_prop h item ''name'')"

section \<open>Interfaces, classes and generics\<close>

definition new_BandCreator :: "heap \<Rightarrow> val \<Rightarrow> heap \<times> val" where
  "new_BandCreator h name = alloc h (Object ''BandCreator'' [(''name'', name)] False)"

definition groupFactory :: "heap \<Rightarrow> val \<Rightarrow> error + heap \<times> val" where
  "groupFactory h arg =
     andThen (get_prop h arg ''name'') (\<lambda>name. Inr (new_BandCreator h name))"

definition new_Cake :: "heap \<Rightarrow> val \<Rightarrow> val \<Rightarrow> heap \<times> val" where
  "new_Cake h name price =
     alloc h (Object ''Cake'' [(''name'', name), (''price'', price)] False)"

definition new_Coupon :: "heap \<Rightarrow> val \<Rightarrow> heap \<times> val" where
  "new_Coupon h name = alloc h (Object ''Coupon'' [(''name'', name)] False)"

text \<open>
  class List: the field list has no initialiser and there is no constructor;
  the body of addItem is commented out.
\<close>

definition new_List :: "heap \<Rightarrow> heap \<times> val" where
  "new_List h = alloc h (Object ''List'' [] False)"

definition addItem :: "heap \<Rightarrow> val \<Rightarrow> val \<Rightarrow> heap" where
  "addItem h this item = h"

definition getList :: "heap \<Rightarrow> val \<Rightarrow> error + val" where
  "getList h this = get_prop h this ''list''"

section \<open>Function overloads\<close>

text \<open>\<open>s.split('')\<close>: a new array of the code units of s, each a string.\<close>

definition string_split :: "heap \<Rightarrow> string \<Rightarrow> heap \<times> val" where
  "string_split h s = alloc h (Array (map (\<lambda>c. Str [c]) s) False)"

text \<open>
  Array.prototype.reverse works in place and returns the array it was called
  on. On a frozen array the first swap throws; an array of fewer than two
  elements is not written to.
\<close>

fun array_reverse :: "heap \<Rightarrow> val \<Rightarrow> error + heap \<times> val" where
  "array_reverse h (Ref a) =
     (if a < length h
      then (case h ! a of
              Array xs f \<Rightarrow>
                if f \<and> 2 \<le> length xs then Inl TypeError
                else Inr (h[a := Array (rev xs) f], Ref a)
            | Object c ps f \<Rightarrow> Inl TypeError)
      else Inl NotModelled)"
| "array_reverse h v = Inl TypeError"

fun join_elems :: "val list \<Rightarrow> string option" where
  "join_elems [] = Some []"
| "join_elems (x # xs) =
     (case (if x = Undefined then Some [] else to_string x, join_elems xs) of
        (Some s, Some r) \<Rightarrow> Some (s @ r)
      | _ \<Rightarrow> None)"

text \<open>\<open>arr.join('')\<close>\<close>

fun array_join :: "heap \<Rightarrow> val \<Rightarrow> error + string" where
  "array_join h (Ref a) =
     (if a < length h
      then (case h ! a of
              Array xs f \<Rightarrow> (case join_elems xs of None \<Rightarrow> Inl NotModelled | Some s \<Rightarrow> Inr s)
            | Object c ps f \<Rightarrow> Inl TypeError)
      else Inl NotModelled)"
| "array_join h v = Inl TypeError"

text \<open>\<open>arr.slice()\<close>: a new, unfrozen array with the same elements.\<close>

fun array_slice :: "heap \<Rightarrow> val \<Rightarrow> error + heap \<times> val" where
  "array_slice h (Ref a) =
     (if a < length h
      then (case h ! a of
              Array xs f \<Rightarrow> Inr (alloc h (Array xs False))
            | Object c ps f \<Rightarrow> Inl TypeError)
      else Inl NotModelled)"
| "array_slice h v = Inl TypeError"

definition reverse :: "heap \<Rightarrow> val \<Rightarrow> error + heap \<times> val" where
  "reverse h stringOrArray =
     (case stringOrArray of
        Str s \<Rightarrow>
          (case string_split h s of (h1, units) \<Rightarrow>
             andThen (array_reverse h1 units) (\<lambda>(h2, reversed).
             andThen (array_join h2 reversed) (\<lambda>joined. Inr (h2, Str joined))))
      | _ \<Rightarrow>
          andThen (array_slice h stringOrArray) (\<lambda>(h1, copy). array_reverse h1 copy))"

section \<open>Enums\<close>

text \<open>
  A numeric enum compiles to a block that creates the enum object unless the
  name is already bound, then stores every member under its name and its
  name under its number. A second declaration of the same enum runs a second
  block on the same object. A const enum leaves no object behind: its members
  are inlined as their string values.
\<close>

fun enum_members :: "heap \<Rightarrow> val \<Rightarrow> (string \<times> int) list \<Rightarrow> error + heap" where
  "enum_members h ob [] = Inr h"
| "enum_members h ob ((k, n) # ms) =
     andThen (assign h ob k (Num n)) (\<lambda>h1.
     andThen (assign h1 ob (show_int n) (Str k)) (\<lambda>h2.
       enum_members h2 ob ms))"

section \<open>The lodash calls\<close>

function chunk_list :: "nat \<Rightarrow> 'a list \<Rightarrow> 'a list list" where
  "chunk_list n xs =
     (if n = 0 \<or> xs = [] then [] else take n xs # chunk_list n (drop n xs))"
  by pat_completeness auto
termination
  by (relation "measure (\<lambda>(n, xs). length xs)") auto

declare chunk_list.simps [simp del]

fun alloc_arrays :: "heap \<Rightarrow> val list list \<Rightarrow> heap \<times> val list" where
  "alloc_arrays h [] = (h, [])"
| "alloc_arrays h (c # cs) =
     (case alloc h (Array c False) of (h1, r) \<Rightarrow>
        (case alloc_arrays h1 cs of (h2, rs) \<Rightarrow> (h2, r # rs)))"

text \<open>
  lodash is imported, not part of the module. From its documentation:
  \<open>_.chunk(array, size)\<close> returns a new array of new arrays, the elements of
  array split into groups of length size, and \<open>_.mixin(source)\<close> adds the
  function properties of source to the object it is called on, here the
  import.
\<close>

fun lodash_chunk :: "heap \<Rightarrow> val \<Rightarrow> nat \<Rightarrow> error + heap \<times> val" where
  "lodash_chunk h (Ref a) n =
     (if a < length h
      then (case h ! a of
              Array xs f \<Rightarrow>
                (case alloc_arrays h (chunk_list n xs) of
                   (h1, rs) \<Rightarrow> Inr (alloc h1 (Array rs False)))
            | Object c ps f \<Rightarrow> Inl NotModelled)
      else Inl NotModelled)"
| "lodash_chunk h v n = Inl NotModelled"

section \<open>The module and its top-level statements\<close>

text \<open>
  The state of the running module: its variables (const, let, and the enum
  object Sizes), the object store, and the names mixed into the import.
  Function and class declarations are never assigned to and are not listed.
\<close>

record state =
  vars :: "(string \<times> val) list"
  store :: heap
  mixins :: "string list"

definition init_state :: state where
  "init_state = \<lparr>vars = [], store = [], mixins = []\<rparr>"

definition read_var :: "state \<Rightarrow> string \<Rightarrow> error + val" where
  "read_var s x = (case map_of (vars s) x of None \<Rightarrow> Inl ReferenceError | Some v \<Rightarrow> Inr v)"

text \<open>\<open>const x = e\<close> or \<open>let x = e\<close>: e may allocate; x is bound to its value.\<close>

definition const_decl :: "string \<Rightarrow> (state \<Rightarrow> error + heap \<times> val) \<Rightarrow> state \<Rightarrow> error + state" where
  "const_decl x rhs s =
     andThen (rhs s) (\<lambda>(h, v). Inr (s\<lparr>store := h, vars := vars s @ [(x, v)]\<rparr>))"

text \<open>An expression statement: the value is dropped, the store is kept.\<close>

definition expr_stmt :: "(state \<Rightarrow> error + heap \<times> val) \<Rightarrow> state \<Rightarrow> error + state" where
  "expr_stmt rhs s = andThen (rhs s) (\<lambda>(h, v). Inr (s\<lparr>store := h\<rparr>))"

definition object_literal :: "(string \<times> val) list \<Rightarrow> heap \<Rightarrow> heap \<times> val" where
  "object_literal ps h = alloc h (Object ''Object'' ps False)"

definition array_literal :: "val list \<Rightarrow> heap \<Rightarrow> heap \<times> val" where
  "array_literal xs h = alloc h (Array xs False)"

definition enum_decl :: "string \<Rightarrow> (string \<times> int) list \<Rightarrow> state \<Rightarrow> error + state" where
  "enum_decl name members s =
     (case map_of (vars s) name of
        Some ob \<Rightarrow>
          andThen (enum_members (store s) ob members) (\<lambda>h. Inr (s\<lparr>store := h\<rparr>))
      | None \<Rightarrow>
          (case object_literal [] (store s) of (h1, ob) \<Rightarrow>
             andThen (enum_members h1 ob members) (\<lambda>h.
               Inr (s\<lparr>store := h, vars := vars s @ [(name, ob)]\<rparr>))))"

text \<open>function updateSize(size): selected = size\<close>

definition updateSize :: "val \<Rightarrow> state \<Rightarrow> error + state" where
  "updateSize sz s =
     (case map_of (vars s) ''selected'' of
        None \<Rightarrow> Inl ReferenceError
      | Some old \<Rightarrow> Inr (s\<lparr>vars := set_prop (vars s) ''selected'' sz\<rparr>))"

definition lodash_mixin :: "state \<Rightarrow> val \<Rightarrow> state" where
  "lodash_mixin s source =
     s\<lparr>mixins := mixins s @
          map fst (filter (\<lambda>(k, v). case v of Fn f \<Rightarrow> True | _ \<Rightarrow> False)
                     (own_props (store s) source))\<rparr>"

text \<open>The statements of app.ts that run, in source order.\<close>

definition top_level :: "(state \<Rightarrow> error + state) list" where
  "top_level =
    [ \<comment> \<open>const man = { name: 'Tyler', age: 30 }\<close>
      const_decl ''man'' (\<lambda>s.
        Inr (object_literal [(''name'', Str ''Tyler''), (''age'', Num 30)] (store s))),
      \<comment> \<open>const personName = getProperty(man, 'name')\<close>
      const_decl ''personName'' (\<lambda>s.
        andThen (read_var s ''man'') (\<lambda>man.
        andThen (getProperty (store s) man ''name'') (\<lambda>v. Inr (store s, v)))),
      \<comment> \<open>const person: Person = { name: 'Tyler', age: 30 }\<close>
      const_decl ''person'' (\<lambda>s.
        Inr (object_literal [(''name'', Str ''Tyler''), (''age'', Num 30)] (store s))),
      \<comment> \<open>const newPerson = freeze(person)\<close>
      const_decl ''newPerson'' (\<lambda>s.
        andThen (read_var s ''person'') (\<lambda>person. Inr (freeze (store s) person))),
      \<comment> \<open>updatePerson(person, { name: 'Joe' })\<close>
      expr_stmt (\<lambda>s.
        andThen (read_var s ''person'') (\<lambda>person.
          case object_literal [(''name'', Str ''Joe'')] (store s) of
            (h1, prop) \<Rightarrow> Inr (updatePerson h1 person prop))),
      \<comment> \<open>const person1 = { name: 'Tyler', age: 30 }\<close>
      const_decl ''person1'' (\<lambda>s.
        Inr (object_literal [(''name'', Str ''Tyler''), (''age'', Num 30)] (store s))),
      \<comment> \<open>const age = printAge(person1)\<close>
      const_decl ''age'' (\<lambda>s.
        andThen (read_var s ''person1'') (\<lambda>person.
        andThen (printAge (store s) person) (\<lambda>v. Inr (store s, v)))),
      \<comment> \<open>const person2 = { name: 'Tyler', age: 30 }\<close>
      const_decl ''person2'' (\<lambda>s.
        Inr (object_literal [(''name'', Str ''Tyler''), (''age'', Num 30)] (store s))),
      \<comment> \<open>let dictionary = {}\<close>
      const_decl ''dictionary'' (\<lambda>s. Inr (object_literal [] (store s))),
      \<comment> \<open>const item = { current: 'js02js9', next: '8nlksjsk' }\<close>
      const_decl ''item'' (\<lambda>s.
        Inr (object_literal
               [(''current'', Str ''js02js9''), (''next'', Str ''8nlksjsk'')] (store s))),
      \<comment> \<open>dictionary[0] = item\<close>
      (\<lambda>s.
        andThen (read_var s ''dictionary'') (\<lambda>dictionary.
        andThen (read_var s ''item'') (\<lambda>item.
        andThen (assign (store s) dictionary (show_nat 0) item) (\<lambda>h.
          Inr (s\<lparr>store := h\<rparr>))))),
      \<comment> \<open>const songDurationFromString = getSongDuration(new Song(..., '05:31'))\<close>
      const_decl ''songDurationFromString'' (\<lambda>s.
        case new_Song (store s) (Str ''Wonderful Wonderful'') (Str ''05:31'') of
          (h1, song) \<Rightarrow> andThen (getSongDuration h1 song) (\<lambda>v. Inr (h1, v))),
      \<comment> \<open>const songDurationFromMS = getSongDuration(new Song(..., 330000))\<close>
      const_decl ''songDurationFromMS'' (\<lambda>s.
        case new_Song (store s) (Str ''Wonderful Wonderful'') (Num 330000) of
          (h1, song) \<Rightarrow> andThen (getSongDuration h1 song) (\<lambda>v. Inr (h1, v))),
      \<comment> \<open>const albumName = getItemName(new Album('Wonderful Wonderful', 300000))\<close>
      const_decl ''albumName'' (\<lambda>s.
        case new_Album (store s) (Str ''Wonderful Wonderful'') (Num 300000) of
          (h1, album) \<Rightarrow> andThen (getItemName h1 album) (\<lambda>v. Inr (h1, v))),
      \<comment> \<open>const playlistName = getItemName(new Playlist('Best Albums', [new Album('The Man', 300000)]))\<close>
      const_decl ''playlistName'' (\<lambda>s.
        case new_Album (store s) (Str ''The Man'') (Num 300000) of
          (h1, album) \<Rightarrow>
            (case array_literal [album] h1 of
               (h2, songs) \<Rightarrow>
                 (case new_Playlist h2 (Str ''Best Albums'') songs of
                    (h3, playlist) \<Rightarrow>
                      andThen (getItemName h3 playlist) (\<lambda>v. Inr (h3, v))))),
      \<comment> \<open>const order = { id: 'xj27s', amount: 100, currency: 'CAD' }\<close>
      const_decl ''order'' (\<lambda>s.
        Inr (object_literal
               [(''id'', Str ''xj27s''), (''amount'', Num 100), (''currency'', Str ''CAD'')]
               (store s))),
      \<comment> \<open>const orderCard = { ...order, type: 'stripe', card: ..., cvc: '123' }\<close>
      const_decl ''orderCard'' (\<lambda>s.
        andThen (read_var s ''order'') (\<lambda>order.
          Inr (object_literal
                 (copy_props (copy_props [] (own_props (store s) order))
                    [(''type'', Str ''stripe''), (''card'', Str ''1000 2000 3000 4000''),
                     (''cvc'', Str ''123'')])
                 (store s)))),
      \<comment> \<open>const orderPayPal = { ...order, type: 'paypal', email: 'abc@def.com' }\<close>
      const_decl ''orderPayPal'' (\<lambda>s.
        andThen (read_var s ''order'') (\<lambda>order.
          Inr (object_literal
                 (copy_props (copy_props [] (own_props (store s) order))
                    [(''type'', Str ''paypal''), (''email'', Str ''abc@def.com'')])
                 (store s)))),
      \<comment> \<open>const newArtist = { name: 'ABC', songs: 5, getSongs() { ... } }\<close>
      const_decl ''newArtist'' (\<lambda>s.
        Inr (object_literal
               [(''name'', Str ''ABC''), (''songs'', Num 5), (''getSongs'', Fn ''getSongs'')]
               (store s))),
      \<comment> \<open>groupFactory({ name: 'Tyler' })\<close>
      expr_stmt (\<lambda>s.
        case object_literal [(''name'', Str ''Tyler'')] (store s) of
          (h1, arg) \<Rightarrow> groupFactory h1 arg),
      \<comment> \<open>const list = new List<Cake>()\<close>
      const_decl ''list'' (\<lambda>s. Inr (new_List (store s))),
      \<comment> \<open>list.addItem(new Cake('Birthday', 15))\<close>
      (\<lambda>s.
        andThen (read_var s ''list'') (\<lambda>list.
          case new_Cake (store s) (Str ''Birthday'') (Num 15) of
            (h1, cake) \<Rightarrow> Inr (s\<lparr>store := addItem h1 list cake\<rparr>))),
      \<comment> \<open>const cakes = list.getList()\<close>
      const_decl ''cakes'' (\<lambda>s.
        andThen (read_var s ''list'') (\<lambda>list.
        andThen (getList (store s) list) (\<lambda>v. Inr (store s, v)))),
      \<comment> \<open>const anotherList = new List<Coupon>()\<close>
      const_decl ''anotherList'' (\<lambda>s. Inr (new_List (store s))),
      \<comment> \<open>anotherList.addItem(new Coupon('CAKE25'))\<close>
      (\<lambda>s.
        andThen (read_var s ''anotherList'') (\<lambda>list.
          case new_Coupon (store s) (Str ''CAKE25'') of
            (h1, coupon) \<Rightarrow> Inr (s\<lparr>store := addItem h1 list coupon\<rparr>))),
      \<comment> \<open>reverse('Birthday')\<close>
      expr_stmt (\<lambda>s. reverse (store s) (Str ''Birthday'')),
      \<comment> \<open>reverse(['frosting', 'vanilla', 'smarties'])\<close>
      expr_stmt (\<lambda>s.
        case array_literal [Str ''frosting'', Str ''vanilla'', Str ''smarties''] (store s) of
          (h1, arr) \<Rightarrow> reverse h1 arr),
      \<comment> \<open>enum Sizes { Small, Medium, Large }\<close>
      enum_decl ''Sizes'' [(''Small'', 0), (''Medium'', 1), (''Large'', 2)],
      \<comment> \<open>enum Sizes { ExtraLarge = 3 }\<close>
      enum_decl ''Sizes'' [(''ExtraLarge'', 3)],
      \<comment> \<open>const selectedSizes = 2\<close>
      const_decl ''selectedSizes'' (\<lambda>s. Inr (store s, Num 2)),
      \<comment> \<open>let selected: Size = Size.Small\<close>
      const_decl ''selected'' (\<lambda>s. Inr (store s, Str ''small'')),
      \<comment> \<open>updateSize(Size.Large)\<close>
      updateSize (Str ''large''),
      \<comment> \<open>_.chunk([1, 2, 3, 4], 2)\<close>
      expr_stmt (\<lambda>s.
        case array_literal [Num 1, Num 2, Num 3, Num 4] (store s) of
          (h1, arr) \<Rightarrow> lodash_chunk h1 arr 2),
      \<comment> \<open>_.mixin({ log(item) { ... } })\<close>
      (\<lambda>s.
        case object_literal [(''log'', Fn ''log'')] (store s) of
          (h1, source) \<Rightarrow> Inr (lodash_mixin (s\<lparr>store := h1\<rparr>) source)) ]"

fun run :: "(state \<Rightarrow> error + state) list \<Rightarrow> state \<Rightarrow> error + state" where
  "run [] s = Inr s"
| "run (st # sts) s = andThen (st s) (run sts)"

text \<open>The state in which the module ends (the starting state, had it thrown).\<close>

definition final_state :: state where
  "final_state = (case run top_level init_state of Inl e \<Rightarrow> init_state | Inr s \<Rightarrow> s)"

text \<open>
  What a variable holds: its value and, for a reference, the object behind it.
  The initial snapshot is taken after the statement that first binds the
  variable; the initial object after the statement that allocates it.
\<close>

definition snapshot :: "state \<Rightarrow> string \<Rightarrow> (val \<times> obj option) option" where
  "snapshot s x =
     (case map_of (vars s) x of
        None \<Rightarrow> None
      | Some v \<Rightarrow>
          Some (v, case v of
                     Ref a \<Rightarrow> if a < length (store s) then Some (store s ! a) else None
                   | _ \<Rightarrow> None))"

fun initial_snapshot ::
  "string \<Rightarrow> (state \<Rightarrow> error + state) list \<Rightarrow> state \<Rightarrow> (val \<times> obj option) option" where
  "initial_snapshot x [] s = snapshot s x"
| "initial_snapshot x (st # sts) s =
     (case snapshot s x of
        Some v \<Rightarrow> Some v
      | None \<Rightarrow> (case st s of Inl e \<Rightarrow> None | Inr s' \<Rightarrow> initial_snapshot x sts s'))"

fun initial_object ::
  "nat \<Rightarrow> (state \<Rightarrow> error + state) list \<Rightarrow> state \<Rightarrow> obj option" where
  "initial_object a [] s = (if a < length (store s) then Some (store s ! a) else None)"
| "initial_object a (st # sts) s =
     (if a < length (store s) then Some (store s ! a)
      else (case st s of Inl e \<Rightarrow> None | Inr s' \<Rightarrow> initial_object a sts s'))"

section \<open>Auxiliary facts\<close>

lemma andThen_Inr [simp]: "andThen (Inr x) f = f x"
  by (simp add: andThen_def)

lemma andThen_Inl [simp]: "andThen (Inl e) f = Inl e"
  by (simp add: andThen_def)

subsection \<open>Whole-number arithmetic of getSongDuration\<close>






subsection \<open>Object spread\<close>

lemma map_of_set_prop: "map_of (set_prop ps k v) = (map_of ps)(k \<mapsto> v)"
  by (induction ps k v rule: set_prop.induct) auto

lemma map_of_copy_props: "map_of (copy_props t src) = map_of t ++ map_of (rev src)"
proof (induction src arbitrary: t)
  case Nil
  show ?case by (simp add: copy_props_def)
next
  case (Cons x xs)
  obtain k v where x: "x = (k, v)" by (cases x)
  have "map_of (copy_props t (x # xs)) = map_of (copy_props (set_prop t k v) xs)"
    by (simp add: copy_props_def x)
  also have "\<dots> = map_of (set_prop t k v) ++ map_of (rev xs)"
    by (rule Cons.IH)
  also have "\<dots> = map_of t ++ map_of (rev (x # xs))"
    by (simp add: map_of_set_prop x map_add_upd_left fun_eq_iff map_add_def split: option.splits)
  finally show ?case .
qed

lemma map_of_rev_distinct:
  assumes "distinct (map fst xs)"
  shows "map_of (rev xs) = map_of xs"
proof -
  have "distinct (map fst (rev xs))"
    using assms by (simp add: rev_map [symmetric])
  then show ?thesis
    using assms by (simp add: map_of_inject_set)
qed

lemma lookup_spread:
  assumes "distinct (map fst ps)" and "distinct (map fst qs)"
  shows "lookup (copy_props (copy_props [] ps) qs) k =
           (case map_of qs k of Some v \<Rightarrow> v | None \<Rightarrow> lookup ps k)"
  using assms
  by (simp add: lookup_def map_of_copy_props map_of_rev_distinct map_add_def
           split: option.splits)

subsection \<open>Splitting and joining a string\<close>



subsection \<open>The run of the module\<close>

lemma run_completes: "run top_level init_state = Inr final_state"
  by code_simp

lemma selected_rebound:
  "initial_snapshot ''selected'' top_level init_state = Some (Str ''small'', None) \<and>
   snapshot final_state ''selected'' = Some (Str ''large'', None)"
  by code_simp

lemma dictionary_written:
  "initial_snapshot ''dictionary'' top_level init_state =
     Some (Ref 6, Some (Object ''Object'' [] False)) \<and>
   snapshot final_state ''dictionary'' =
     Some (Ref 6, Some (Object ''Object'' [(''0'', Ref 7)] False)) \<and>
   map_of (vars final_state) ''item'' = Some (Ref 7)"
  by code_simp

lemma person_frozen:
  "initial_snapshot ''person'' top_level init_state =
     Some (Ref 1, Some (Object ''Object'' [(''name'', Str ''Tyler''), (''age'', Num 30)] False)) \<and>
   snapshot final_state ''person'' =
     Some (Ref 1, Some (Object ''Object'' [(''name'', Str ''Tyler''), (''age'', Num 30)] True))"
  by code_simp

lemma Sizes_extended:
  "initial_snapshot ''Sizes'' top_level init_state =
     Some (Ref 27, Some (Object ''Object''
       [(''Small'', Num 0), (''0'', Str ''Small''), (''Medium'', Num 1),
        (''1'', Str ''Medium''), (''Large'', Num 2), (''2'', Str ''Large'')] False)) \<and>
   snapshot final_state ''Sizes'' =
     Some (Ref 27, Some (Object ''Object''
       [(''Small'', Num 0), (''0'', Str ''Small''), (''Medium'', Num 1),
        (''1'', Str ''Medium''), (''Large'', Num 2), (''2'', Str ''Large''),
        (''ExtraLarge'', Num 3), (''3'', Str ''ExtraLarge'')] False))"
  by code_simp

lemma mixins_extended: "mixins init_state = [] \<and> mixins final_state = [''log'']"
  by code_simp

lemma other_variables_kept:
  "list_all (\<lambda>x. x \<in> set [''person'', ''dictionary'', ''Sizes'', ''selected''] \<or>
                  initial_snapshot x top_level init_state = snapshot final_state x)
            (map fst (vars final_state))"
  by code_simp

lemma other_objects_kept:
  "list_all (\<lambda>a. a \<in> set [1, 6, 27] \<or>
                  initial_object a top_level init_state = Some (store final_state ! a))
            [0 ..< length (store final_state)]"
  by code_simp

section \<open>The claims\<close>




text \<open>
  C3. For a Person p and a partial record prop, updatePerson(p, prop) returns
  a new object: each of its fields has prop's value where prop has that field
  and p's value otherwise. Every object already in the store, p among them,
  is left as it was.
\<close>

theorem updatePerson_merge:
  assumes "p < length h" and "h ! p = Object c ps f" and "distinct (map fst ps)"
    and "q < length h" and "h ! q = Object c' qs f'" and "distinct (map fst qs)"
  shows "case updatePerson h (Ref p) (Ref q) of
           (h', r) \<Rightarrow>
             r = Ref (length h) \<and> take (length h) h' = h \<and> h' ! p = h ! p \<and>
             (\<forall>k. get_prop h' r k =
                    (case map_of qs k of Some v \<Rightarrow> Inr v | None \<Rightarrow> get_prop h (Ref p) k))"
  using assms
  by (simp add: updatePerson_def alloc_def own_props_def lookup_spread nth_append
           split: option.splits)

theorem updatePerson_merge_witness:
  "(case updatePerson
          [Object ''Object'' [(''name'', Str ''Tyler''), (''age'', Num 30)] False,
           Object ''Object'' [(''name'', Str ''Joe'')] False] (Ref 0) (Ref 1) of
      (h', r) \<Rightarrow>
        r = Ref 2 \<and>
        h' ! 0 = Object ''Object'' [(''name'', Str ''Tyler''), (''age'', Num 30)] False \<and>
        get_prop h' r ''name'' = Inr (Str ''Joe'') \<and>
        get_prop h' r ''age'' = Inr (Num 30))"
  using updatePerson_merge
    [of 0 "[Object ''Object'' [(''name'', Str ''Tyler''), (''age'', Num 30)] False,
            Object ''Object'' [(''name'', Str ''Joe'')] False]"
        "''Object''" "[(''name'', Str ''Tyler''), (''age'', Num 30)]" False
        1 "''Object''" "[(''name'', Str ''Joe'')]" False]
  by (simp add: lookup_def split: prod.splits)

text \<open>
  C4, as stated: running the top-level statements leaves every top-level
  variable with the value it was initialised with. It fails at selected,
  which updateSize rebinds, and at dictionary, whose record is written to.
\<close>

theorem top_level_changes_state:
  "run top_level init_state = Inr final_state \<and>
   initial_snapshot ''selected'' top_level init_state = Some (Str ''small'', None) \<and>
   snapshot final_state ''selected'' = Some (Str ''large'', None) \<and>
   initial_snapshot ''dictionary'' top_level init_state \<noteq> snapshot final_state ''dictionary'' \<and>
   \<not> list_all (\<lambda>x. initial_snapshot x top_level init_state = snapshot final_state x)
         (map fst (vars final_state))"
proof -
  have bound: "''selected'' \<in> set (map fst (vars final_state))"
  proof (rule ccontr)
    assume "''selected'' \<notin> set (map fst (vars final_state))"
    then have "map_of (vars final_state) ''selected'' = None"
      by (simp add: map_of_eq_None_iff)
    then have "snapshot final_state ''selected'' = None"
      by (simp add: snapshot_def)
    with selected_rebound show False by simp
  qed
  have "initial_snapshot ''selected'' top_level init_state \<noteq> snapshot final_state ''selected''"
    using selected_rebound by simp
  with bound have "\<not> list_all (\<lambda>x. initial_snapshot x top_level init_state = snapshot final_state x)
         (map fst (vars final_state))"
    unfolding list_all_iff by blast
  moreover have "initial_snapshot ''dictionary'' top_level init_state \<noteq>
      snapshot final_state ''dictionary''"
    using dictionary_written by simp
  ultimately show ?thesis
    using run_completes selected_rebound by simp
qed

text \<open>
  C4, amended. The module runs to its end without throwing. Apart from
  console output, every top-level variable, and every stored object, is at
  the end as it was after the statement that initialised the variable, or
  created the object, except that: updateSize rebinds selected
  from 'small' to 'large'; the assignment dictionary[0] = item adds the key
  '0', bound to item, to the dictionary record; freeze marks the person object
  frozen, its fields unchanged; the second enum Sizes block adds ExtraLarge
  and 3 to the Sizes object; and the mixin call adds log to lodash.
\<close>

theorem top_level_effects:
  "run top_level init_state = Inr final_state \<and>
   list_all (\<lambda>x. x \<in> set [''person'', ''dictionary'', ''Sizes'', ''selected''] \<or>
                  initial_snapshot x top_level init_state = snapshot final_state x)
            (map fst (vars final_state)) \<and>
   list_all (\<lambda>a. a \<in> set [1, 6, 27] \<or>
                  initial_object a top_level init_state = Some (store final_state ! a))
            [0 ..< length (store final_state)] \<and>
   (initial_snapshot ''selected'' top_level init_state = Some (Str ''small'', None) \<and>
    snapshot final_state ''selected'' = Some (Str ''large'', None)) \<and>
   (initial_snapshot ''dictionary'' top_level init_state =
      Some (Ref 6, Some (Object ''Object'' [] False)) \<and>
    snapshot final_state ''dictionary'' =
      Some (Ref 6, Some (Object ''Object'' [(''0'', Ref 7)] False)) \<and>
    map_of (vars final_state) ''item'' = Some (Ref 7)) \<and>
   (initial_snapshot ''person'' top_level init_state =
      Some (Ref 1, Some (Object ''Object'' [(''name'', Str ''Tyler''), (''age'', Num 30)] False)) \<and>
    snapshot final_state ''person'' =
      Some (Ref 1, Some (Object ''Object'' [(''name'', Str ''Tyler''), (''age'', Num 30)] True))) \<and>
   (initial_snapshot ''Sizes'' top_level init_state =
      Some (Ref 27, Some (Object ''Object''
        [(''Small'', Num 0), (''0'', Str ''Small''), (''Medium'', Num 1),
         (''1'', Str ''Medium''), (''Large'', Num 2), (''2'', Str ''Large'')] False)) \<and>
    snapshot final_state ''Sizes'' =
      Some (Ref 27, Some (Object ''Object''
        [(''Small'', Num 0), (''0'', Str ''Small''), (''Medium'', Num 1),
         (''1'', Str ''Medium''), (''Large'', Num 2), (''2'', Str ''Large''),
         (''ExtraLarge'', Num 3), (''3'', Str ''ExtraLarge'')] False))) \<and>
   (mixins init_state = [] \<and> mixins final_state = [''log''])"
  by (intro conjI [OF run_completes] conjI [OF other_variables_kept]
        conjI [OF other_objects_kept] conjI [OF selected_rebound]
        conjI [OF dictionary_written] conjI [OF person_frozen]
        conjI [OF Sizes_extended] mixins_extended)

text \<open>
  C5. The dispatcher getName, built on the guard isAlbum, and the dispatcher
  getItemName, built on instanceof, return the same result on every input,
  so in particular on every Album and every Playlist.
\<close>

theorem getName_same_as_getItemName: "getName h item = getItemName h item"
  by (simp add: getName_def getItemName_def isAlbum_def)

text \<open>
  C6. For every object obj in the store, freeze(obj) returns obj itself with
  every field as it was, and from then on assigning to a field of it throws
  and leaves the value of the field as it was.
\<close>

theorem freeze_keeps_fields:
  assumes "a < length h"
  shows "case freeze h (Ref a) of
           (h', r) \<Rightarrow>
             r = Ref a \<and>
             own_props h' r = own_props h (Ref a) \<and>
             (\<forall>k. get_prop h' r k = get_prop h (Ref a) k) \<and>
             (\<forall>k w. assign h' r k w = Inl TypeError \<and>
                    get_prop (attempt_assign h' r k w) r k = get_prop h (Ref a) k)"
  using assms
  by (cases "h ! a") (simp_all add: freeze_def object_freeze_def own_props_def attempt_assign_def)

theorem freeze_keeps_fields_witness:
  "(case freeze [Object ''Object'' [(''name'', Str ''Tyler''), (''age'', Num 30)] False] (Ref 0) of
      (h', r) \<Rightarrow>
        r = Ref 0 \<and>
        get_prop h' r ''name'' = Inr (Str ''Tyler'') \<and>
        assign h' r ''name'' (Str ''Joe'') = Inl TypeError \<and>
        get_prop (attempt_assign h' r ''name'' (Str ''Joe'')) r ''name'' = Inr (Str ''Tyler''))"
  using freeze_keeps_fields
    [of 0 "[Object ''Object'' [(''name'', Str ''Tyler''), (''age'', Num 30)] False]"]
  by (simp add: lookup_def split: prod.splits)

text \<open>
  C7. For every array arr, reverse(arr) returns a reference to a new array
  that holds the elements of arr in reverse order; arr and every other object
  already in the store are left as they were.
\<close>

theorem reverse_array:
  assumes "a < length h" and "h ! a = Array xs f"
  shows "\<exists>h' r. reverse h (Ref a) = Inr (h', Ref r) \<and>
           r \<noteq> a \<and> \<not> r < length h \<and> r < length h' \<and>
           h' ! r = Array (rev xs) False \<and>
           h' ! a = Array xs f \<and> take (length h) h' = h"
  using assms
  by (simp add: reverse_def alloc_def nth_append)

theorem reverse_array_witness:
  "reverse [Array [Str ''frosting'', Str ''vanilla'', Str ''smarties''] False] (Ref 0) =
     Inr ([Array [Str ''frosting'', Str ''vanilla'', Str ''smarties''] False,
           Array [Str ''smarties'', Str ''vanilla'', Str ''frosting''] False], Ref 1)"
proof -
  obtain h' r where
    res: "reverse [Array [Str ''frosting'', Str ''vanilla'', Str ''smarties''] False] (Ref 0) =
            Inr (h', Ref r)"
    and new: "\<not> r < 1" "r < length h'"
    and elems: "h' ! r = Array (rev [Str ''frosting'', Str ''vanilla'', Str ''smarties'']) False"
    and old: "take 1 h' = [Array [Str ''frosting'', Str ''vanilla'', Str ''smarties''] False]"
    using reverse_array
      [of 0 "[Array [Str ''frosting'', Str ''vanilla'', Str ''smarties''] False]"
          "[Str ''frosting'', Str ''vanilla'', Str ''smarties'']" False]
    by auto
  have "reverse [Array [Str ''frosting'', Str ''vanilla'', Str ''smarties''] False] (Ref 0) =
     Inr ([Array [Str ''frosting'', Str ''vanilla'', Str ''smarties''] False,
           Array [Str ''smarties'', Str ''vanilla'', Str ''frosting''] False], Ref 1)"
    by (simp add: reverse_def alloc_def)
  with res show ?thesis by simp
qed

text \<open>
  C8. For every Song whose duration is a string, getSongDuration returns that
  string as it is; for new Song('Wonderful Wonderful', '05:31') it returns
  '05:31'.
\<close>

theorem getSongDuration_string:
  "(get_prop h item ''duration'' = Inr (Str s) \<longrightarrow> getSongDuration h item = Inr (Str s)) \<and>
   (case new_Song h0 title (Str s) of (h1, song) \<Rightarrow> getSongDuration h1 song = Inr (Str s)) \<and>
   (case new_Song h0 (Str ''Wonderful Wonderful'') (Str ''05:31'') of
      (h1, song) \<Rightarrow> getSongDuration h1 song = Inr (Str ''05:31''))"
  by (simp add: getSongDuration_def new_Song_def alloc_def lookup_def)

theorem getSongDuration_string_witness:
  "get_prop [Object ''Song'' [(''title'', Str ''Run''), (''duration'', Str ''01:30'')] False]
     (Ref 0) ''duration'' = Inr (Str ''01:30'') \<and>
   getSongDuration [Object ''Song'' [(''title'', Str ''Run''), (''duration'', Str ''01:30'')] False]
     (Ref 0) = Inr (Str ''01:30'')"
  using getSongDuration_string
    [of "[Object ''Song'' [(''title'', Str ''Run''), (''duration'', Str ''01:30'')] False]"
        "Ref 0" "''01:30''"]
  by (simp add: lookup_def)

text \<open>
  C9. A new List has no field list, and addItem leaves the store as it is:
  on a fresh instance and after any sequence of addItem calls getList()
  returns undefined, never an array of the added items.
\<close>

theorem List_never_filled:
  "case new_List h of
     (h1, l) \<Rightarrow>
       map_of (own_props h1 l) ''list'' = None \<and>
       getList h1 l = Inr Undefined \<and>
       getList (foldl (\<lambda>h' x. addItem h' l x) h1 items) l = Inr Undefined"
proof -
  have "foldl (\<lambda>h' x. addItem h' l x) h1 items = h1" for h1 l
    by (induction items) (simp_all add: addItem_def)
  then show ?thesis
    by (simp add: new_List_def alloc_def getList_def lookup_def own_props_def)
qed

text \<open>
  C10. The constructor of Album never assigns kind. For every Album a made by
  new Album(title, duration), a.kind is undefined, so getKindName(a) returns
  a.name, which is undefined, while getItemName(a) returns the title.
\<close>

theorem Album_kind_unset:
  "case new_Album h (Str title) (Num duration) of
     (h', a) \<Rightarrow>
       get_prop h' a ''kind'' = Inr Undefined \<and>
       get_prop h' a ''name'' = Inr Undefined \<and>
       getKindName h' a = Inr Undefined \<and>
       getItemName h' a = Inr (Str title) \<and>
       getKindName h' a \<noteq> getItemName h' a"
  by (simp add: new_Album_def alloc_def getKindName_def getItemName_def instanceof_def lookup_def)

end
